theory Spec2Isabelle
  imports Main
begin

section \<open>Data model of the plugin (plugin.go, main.go)\<close>

text \<open>
  Go strings are byte sequences, as HOL's \<open>string\<close> is. A Go slice is a header
  (pointer, length, capacity) over a backing array that copies of the header share; the
  header is modelled as a record and the arrays live in the store of the \<open>world\<close>.
\<close>

record slice =
  slice_ptr :: nat
  slice_len :: nat
  slice_cap :: nat

text \<open>
  The struct \<open>Plugin\<close>. The declaration in plugin.go has no \<open>Release\<close> and no
  \<open>ShowEnv\<close> field, but \<open>main\<close> and \<open>preparePlugin\<close> read and write them, so the
  record carries both. \<open>Actions\<close> is only ever read and is kept as a list; \<open>Values\<close> is
  appended to and is a slice header.
\<close>

record Plugin =
  Debug :: bool
  ShowEnv :: bool
  Actions :: "string list"
  AuthKey :: string
  Zone :: string
  Cluster :: string
  Project :: string
  Namespace :: string
  ChartRepo :: string
  Bucket :: string
  ChartPath :: string
  ChartVersion :: string
  Package :: string
  Release :: string
  Values :: slice

text \<open>An \<open>exec.Cmd\<close>: the argument vector (program first) and whether the child
  inherits the standard output and error streams of the process.\<close>

record Cmd =
  Args :: "string list"
  Stdio :: bool

text \<open>Everything the program does to the world outside its own memory.\<close>

datatype op =
    TempFile string string      \<comment> \<open>\<open>ioutil.TempFile(dir, pattern)\<close>\<close>
  | WriteFile string string     \<comment> \<open>\<open>tmpfile.Write\<close>: file name, bytes\<close>
  | CloseFile string            \<comment> \<open>\<open>tmpfile.Close\<close>\<close>
  | Run Cmd                     \<comment> \<open>\<open>cmd.Run()\<close>\<close>
  | Setenv string string        \<comment> \<open>\<open>os.Setenv(key, value)\<close>\<close>
  | Trace "string list"         \<comment> \<open>\<open>trace(cmd)\<close>: debug log of \<open>cmd.Args\<close>\<close>
  | Warn string                 \<comment> \<open>\<open>logrus.Warn\<close>\<close>
  | Sleep nat                   \<comment> \<open>\<open>time.Sleep\<close>, in seconds\<close>
  | Fatal string                \<comment> \<open>\<open>logrus.WithError(err).Fatal(msg)\<close>\<close>

datatype error =
    UnknownAction               \<comment> \<open>\<open>errors.New("unknown action")\<close>\<close>
  | OpFailed op                 \<comment> \<open>the error returned by a failed operation\<close>

text \<open>
  The environment decides what the program cannot: whether an operation succeeds (given
  everything done so far), the name of a fresh temporary file, and the capacity the
  runtime picks when \<open>append\<close> has to reallocate.
\<close>

record env =
  succeeds :: "op list \<Rightarrow> op \<Rightarrow> bool"
  tmpname :: "op list \<Rightarrow> string"
  growcap :: "nat \<Rightarrow> nat \<Rightarrow> nat"

record world =
  events :: "op list"
  heap :: "nat \<Rightarrow> string list"
  nextaddr :: nat

datatype exit = ExitOK | ExitFatal string error

definition gcloudBin :: string where
  "gcloudBin = ''/opt/google-cloud-sdk/bin/gcloud''"

definition gsutilBin :: string where
  "gsutilBin = ''/opt/google-cloud-sdk/bin/gsutil''"

definition kubectlBin :: string where
  "kubectlBin = ''/opt/google-cloud-sdk/bin/kubectl''"

definition helmBin :: string where
  "helmBin = ''/opt/google-cloud-sdk/bin/helm''"

definition createPkg :: string where
  "createPkg = ''create''"

definition pushPkg :: string where
  "pushPkg = ''push''"

definition deployPkg :: string where
  "deployPkg = ''deploy''"

section \<open>Library functions the code calls\<close>

text \<open>\<open>strings.Split(s, sep)\<close> for a one-byte separator: the pieces between the
  occurrences of \<open>sep\<close>; never an empty list.\<close>

fun Split :: "string \<Rightarrow> char \<Rightarrow> string list" where
  "Split [] sep = [] # []"
| "Split (c # cs) sep =
     (if c = sep then [] # Split cs sep
      else (case Split cs sep of
              [] \<Rightarrow> [c] # []
            | x # xs \<Rightarrow> (c # x) # xs))"

text \<open>\<open>strings.Join(elems, sep)\<close>.\<close>

fun Join :: "string list \<Rightarrow> string \<Rightarrow> string" where
  "Join [] sep = []"
| "Join [x] sep = x"
| "Join (x # y # ys) sep = x @ sep @ Join (y # ys) sep"

text \<open>\<open>exec.Command(name, arg...)\<close>: \<open>Args\<close> holds the program and its arguments;
  the streams are not inherited until the caller sets them.\<close>

definition Command :: "string \<Rightarrow> string list \<Rightarrow> Cmd" where
  "Command name args = \<lparr>Args = name # args, Stdio = False\<rparr>"

text \<open>The elements a slice header shows: the first \<open>slice_len\<close> cells of its array.\<close>

definition slice_elems :: "world \<Rightarrow> slice \<Rightarrow> string list" where
  "slice_elems w s = take (slice_len s) (heap w (slice_ptr s))"

text \<open>
  The builtin \<open>append(s, v)\<close> for one element. With spare capacity it writes the cell
  behind the last element of the shared array and returns a longer header on the same
  array; otherwise it copies the elements into a fresh, larger array.
\<close>

definition append_slice :: "env \<Rightarrow> slice \<Rightarrow> string \<Rightarrow> world \<Rightarrow> slice \<times> world" where
  "append_slice e s v w =
     (if slice_len s < slice_cap s then
        (s\<lparr>slice_len := slice_len s + 1\<rparr>,
         w\<lparr>heap := (heap w)(slice_ptr s := (heap w (slice_ptr s))[slice_len s := v])\<rparr>)
      else
        (let n = slice_len s + 1;
             c = max n (growcap e (slice_cap s) n);
             a = nextaddr w
         in (\<lparr>slice_ptr = a, slice_len = n, slice_cap = c\<rparr>,
             w\<lparr>heap := (heap w)(a := slice_elems w s @ v # replicate (c - n) []),
               nextaddr := a + 1\<rparr>)))"

text \<open>Operations that return nothing to check: logging and sleeping.\<close>

fun infallible :: "op \<Rightarrow> bool" where
  "infallible (Trace _) = True"
| "infallible (Warn _) = True"
| "infallible (Sleep _) = True"
| "infallible (Fatal _) = True"
| "infallible _ = False"

text \<open>Performing one operation: it is recorded, and its error (if any) returned.\<close>

definition perform :: "env \<Rightarrow> op \<Rightarrow> world \<Rightarrow> error option \<times> world" where
  "perform e x w =
     (if infallible x \<or> succeeds e (events w) x then None else Some (OpFailed x),
      w\<lparr>events := events w @ [x]\<rparr>)"

definition emit :: "env \<Rightarrow> op \<Rightarrow> world \<Rightarrow> world" where
  "emit e x w = snd (perform e x w)"

section \<open>main.go: default resolution\<close>

text \<open>\<open>preparePlugin\<close> takes a pointer; the model returns the error and the updated
  struct.\<close>

definition preparePlugin :: "Plugin \<Rightarrow> error option \<times> Plugin" where
  "preparePlugin p0 =
     (let p1 = (if Package p0 = [] then p0\<lparr>Package := last (Split (ChartPath p0) CHR ''/'')\<rparr>
                else p0);
          p2 = (if Release p1 = [] then p1\<lparr>Release := Package p1\<rparr> else p1);
          p3 = (if ChartRepo p2 = [] \<and> Bucket p2 \<noteq> []
                then p2\<lparr>ChartRepo := ''https://'' @ Bucket p2 @ ''.storage.googleapis.com/''\<rparr>
                else p2);
          p4 = (if Namespace p3 = [] then p3\<lparr>Namespace := ''default''\<rparr> else p3)
      in (None, p4))"

section \<open>plugin.go: commands and handlers\<close>

text \<open>\<open>trace(cmd)\<close> logs the argument vector at debug level.\<close>

definition trace :: "env \<Rightarrow> Cmd \<Rightarrow> world \<Rightarrow> world" where
  "trace e cmd w = emit e (Trace (Args cmd)) w"

text \<open>The block every command builder repeats:
  \<open>if p.Debug { trace(cmd); cmd.Stdout = os.Stdout; cmd.Stderr = os.Stderr }\<close>.\<close>

definition debug_cmd :: "env \<Rightarrow> Plugin \<Rightarrow> Cmd \<Rightarrow> world \<Rightarrow> Cmd \<times> world" where
  "debug_cmd e p cmd w =
     (if Debug p then (cmd\<lparr>Stdio := True\<rparr>, trace e cmd w) else (cmd, w))"

definition createPackage :: "env \<Rightarrow> Plugin \<Rightarrow> world \<Rightarrow> error option \<times> world" where
  "createPackage e p w =
     (let cmd = Command helmBin [''package'', ''--version'', ChartVersion p, ChartPath p];
          (cmd, w1) = debug_cmd e p cmd w
      in perform e (Run cmd) w1)"

definition pushPackage :: "env \<Rightarrow> Plugin \<Rightarrow> world \<Rightarrow> error option \<times> world" where
  "pushPackage e p w =
     (let cmd = Command gsutilBin
                  [''cp'', Package p @ ''-'' @ ChartVersion p @ ''.tgz'', ''gs://'' @ Bucket p];
          (cmd, w1) = debug_cmd e p cmd w
      in case perform e (Run cmd) w1 of
           (Some err, w2) \<Rightarrow> (Some err, w2)
         | (None, w2) \<Rightarrow> (None, w2))"

definition kubeConfig :: "env \<Rightarrow> Plugin \<Rightarrow> world \<Rightarrow> error option \<times> world" where
  "kubeConfig e p w =
     (let cmd = Command kubectlBin [''config'', ''view''];
          w1 = trace e cmd w;
          cmd = cmd\<lparr>Stdio := True\<rparr>
      in perform e (Run cmd) w1)"

text \<open>The receiver is a copy of the caller's struct: the assignment to \<open>p.Values\<close>
  changes the copy only, while \<open>append\<close> may write to the array both headers share.\<close>

definition deployPackage :: "env \<Rightarrow> Plugin \<Rightarrow> world \<Rightarrow> error option \<times> world" where
  "deployPackage e p w =
     (case (if Debug p then kubeConfig e p w else (None, w)) of
        (Some err, w1) \<Rightarrow> (Some err, w1)
      | (None, w1) \<Rightarrow>
          (let (vs, w2) = append_slice e (Values p) (''namespace='' @ Namespace p) w1;
               p = p\<lparr>Values := vs\<rparr>;
               cmd = Command helmBin
                       [''upgrade'', Package p, Package p @ ''-'' @ ChartVersion p @ ''.tgz'',
                        ''--set'', Join (slice_elems w2 (Values p)) '','',
                        ''--install'', ''--namespace'', Namespace p];
               (cmd, w3) = debug_cmd e p cmd w2
           in perform e (Run cmd) w3))"

text \<open>\<open>ioutil.TempFile\<close>: the file name on success.\<close>

definition tempFile :: "env \<Rightarrow> string \<Rightarrow> string \<Rightarrow> world \<Rightarrow> (error + string) \<times> world" where
  "tempFile e dir pat w =
     (case perform e (TempFile dir pat) w of
        (Some err, w1) \<Rightarrow> (Inl err, w1)
      | (None, w1) \<Rightarrow> (Inr (tmpname e (events w)), w1))"

text \<open>The loop \<open>for _, cmd := range cmds\<close> of \<open>setupProject\<close>.\<close>

fun run_cmds :: "env \<Rightarrow> Plugin \<Rightarrow> Cmd list \<Rightarrow> world \<Rightarrow> error option \<times> world" where
  "run_cmds e p [] w = (None, w)"
| "run_cmds e p (cmd # cmds) w =
     (let (cmd, w1) = debug_cmd e p cmd w
      in case perform e (Run cmd) w1 of
           (Some err, w2) \<Rightarrow> (Some err, w2)
         | (None, w2) \<Rightarrow> run_cmds e p cmds w2)"

definition setupProject :: "env \<Rightarrow> Plugin \<Rightarrow> world \<Rightarrow> error option \<times> world" where
  "setupProject e p w =
     (case tempFile e [] ''auth-key.json'' w of
        (Inl err, w1) \<Rightarrow> (Some err, w1)
      | (Inr name, w1) \<Rightarrow>
          (case perform e (WriteFile name (AuthKey p)) w1 of
             (Some err, w2) \<Rightarrow> (Some err, w2)
           | (None, w2) \<Rightarrow>
               (case perform e (CloseFile name) w2 of
                  (Some err, w3) \<Rightarrow> (Some err, w3)
                | (None, w3) \<Rightarrow>
                    (let cmds =
                           [Command gcloudBin
                              [''auth'', ''activate-service-account'', ''--key-file='' @ name],
                            Command gcloudBin [''config'', ''set'', ''project'', Project p],
                            Command gcloudBin
                              [''container'', ''clusters'', ''get-credentials'', Cluster p,
                               ''--zone'', Zone p]]
                     in case run_cmds e p cmds w3 of
                          (Some err, w4) \<Rightarrow> (Some err, w4)
                        | (None, w4) \<Rightarrow>
                            perform e (Setenv ''GOOGLE_APPLICATION_CREDENTIALS'' name) w4))))"

definition helmInit :: "env \<Rightarrow> Plugin \<Rightarrow> world \<Rightarrow> error option \<times> world" where
  "helmInit e p w =
     (let cmd = Command helmBin [''init'', ''--client-only''];
          (cmd, w1) = debug_cmd e p cmd w
      in case perform e (Run cmd) w1 of
           (Some err, w2) \<Rightarrow> (Some err, w2)
         | (None, w2) \<Rightarrow> (None, w2))"

text \<open>The loop \<open>for _, a := range p.Actions\<close> of \<open>Exec\<close>, with its \<open>switch\<close>.\<close>

fun Exec_actions :: "env \<Rightarrow> Plugin \<Rightarrow> string list \<Rightarrow> world \<Rightarrow> error option \<times> world" where
  "Exec_actions e p [] w = (None, w)"
| "Exec_actions e p (a # as) w =
     (if a = createPkg then
        (case createPackage e p w of
           (Some err, w1) \<Rightarrow> (Some err, w1)
         | (None, w1) \<Rightarrow> Exec_actions e p as w1)
      else if a = pushPkg then
        (case pushPackage e p w of
           (Some err, w1) \<Rightarrow> (Some err, w1)
         | (None, w1) \<Rightarrow> Exec_actions e p as w1)
      else if a = deployPkg then
        (case deployPackage e p w of
           (Some err, w1) \<Rightarrow> (Some err, w1)
         | (None, w1) \<Rightarrow> Exec_actions e p as w1)
      else (Some UnknownAction, w))"

definition Exec :: "env \<Rightarrow> Plugin \<Rightarrow> world \<Rightarrow> error option \<times> world" where
  "Exec e p w =
     (case setupProject e p w of
        (Some err, w1) \<Rightarrow> (Some err, w1)
      | (None, w1) \<Rightarrow>
          (case helmInit e p w1 of
             (Some err, w2) \<Rightarrow> (Some err, w2)
           | (None, w2) \<Rightarrow> Exec_actions e p (Actions p) w2))"

section \<open>main.go: the two retried phases\<close>

text \<open>
  \<open>main\<close> from the parsed configuration on (loading the environment, printing it for
  \<open>ShowEnv\<close> and setting the log level come before and are not modelled).
  \<open>logrus.Fatal\<close> logs and exits the process: the model returns at once.
  \<open>main_exec\<close> is the second \<open>if\<close> statement of \<open>main\<close>, around \<open>p.Exec()\<close>.
\<close>

definition main_exec :: "env \<Rightarrow> Plugin \<Rightarrow> world \<Rightarrow> exit \<times> world" where
  "main_exec e p w =
     (case Exec e p w of
        (None, w1) \<Rightarrow> (ExitOK, w1)
      | (Some _, w1) \<Rightarrow>
          (let w2 = emit e (Warn ''Plugin execution failed. Waiting 10 seconds and retrying!'') w1
           in case Exec e p w2 of
                (None, w3) \<Rightarrow> (ExitOK, w3)
              | (Some err, w3) \<Rightarrow>
                  (ExitFatal ''failed to execute plugin'' err,
                   emit e (Fatal ''failed to execute plugin'') w3)))"

definition main :: "env \<Rightarrow> Plugin \<Rightarrow> world \<Rightarrow> exit \<times> world" where
  "main e p w =
     (case preparePlugin p of
        (None, p1) \<Rightarrow> main_exec e p1 w
      | (Some _, p1) \<Rightarrow>
          (let w1 = emit e (Warn ''Prepare plugin failed. Waiting 10 seconds and retrying!'') w;
               w2 = emit e (Sleep 10) w1
           in case preparePlugin p1 of
                (None, p2) \<Rightarrow> main_exec e p2 w2
              | (Some err, p2) \<Rightarrow>
                  (ExitFatal ''failed to prepare plugin'' err,
                   emit e (Fatal ''failed to prepare plugin'') w2)))"

section \<open>Notions the properties are stated with\<close>

text \<open>The final \<open>/\<close>-separated segment of a path: its longest suffix without a \<open>/\<close>.\<close>

definition final_segment :: "string \<Rightarrow> string" where
  "final_segment s = rev (takeWhile (\<lambda>c. c \<noteq> CHR ''/'') (rev s))"

text \<open>Steps run in strict order; the first failure aborts and its error is the result.\<close>

fun perform_all :: "env \<Rightarrow> op list \<Rightarrow> world \<Rightarrow> error option \<times> world" where
  "perform_all e [] w = (None, w)"
| "perform_all e (x # xs) w =
     (case perform e x w of
        (Some err, w1) \<Rightarrow> (Some err, w1)
      | (None, w1) \<Rightarrow> perform_all e xs w1)"

text \<open>The same on histories alone: the steps attempted (up to and including the first
  that fails) and the error of the first failing step.\<close>

fun attempted :: "env \<Rightarrow> op list \<Rightarrow> op list \<Rightarrow> op list" where
  "attempted e h [] = []"
| "attempted e h (x # xs) =
     (if infallible x \<or> succeeds e h x then x # attempted e (h @ [x]) xs else [x])"

fun first_error :: "env \<Rightarrow> op list \<Rightarrow> op list \<Rightarrow> error option" where
  "first_error e h [] = None"
| "first_error e h (x # xs) =
     (if infallible x \<or> succeeds e h x then first_error e (h @ [x]) xs
      else Some (OpFailed x))"

text \<open>Running one command: traced and with inherited streams under \<open>debug\<close>.\<close>

definition cmd_ops :: "Plugin \<Rightarrow> Cmd \<Rightarrow> op list" where
  "cmd_ops p cmd = (if Debug p then [Trace (Args cmd), Run (cmd\<lparr>Stdio := True\<rparr>)] else [Run cmd])"

text \<open>The steps of credential provisioning, for the temporary file \<open>name\<close>.\<close>

definition activate_cmd :: "string \<Rightarrow> Cmd" where
  "activate_cmd name =
     Command gcloudBin [''auth'', ''activate-service-account'', ''--key-file='' @ name]"

definition project_cmd :: "Plugin \<Rightarrow> Cmd" where
  "project_cmd p = Command gcloudBin [''config'', ''set'', ''project'', Project p]"

definition cluster_cmd :: "Plugin \<Rightarrow> Cmd" where
  "cluster_cmd p =
     Command gcloudBin
       [''container'', ''clusters'', ''get-credentials'', Cluster p, ''--zone'', Zone p]"

definition record_path :: "string \<Rightarrow> op" where
  "record_path name = Setenv ''GOOGLE_APPLICATION_CREDENTIALS'' name"

definition provision_steps :: "Plugin \<Rightarrow> string \<Rightarrow> op list" where
  "provision_steps p name =
     [TempFile [] ''auth-key.json'', WriteFile name (AuthKey p), CloseFile name] @
     cmd_ops p (activate_cmd name) @ cmd_ops p (project_cmd p) @ cmd_ops p (cluster_cmd p)"

text \<open>The commands of the three stages and of the two auxiliary calls.\<close>

definition package_cmd :: "Plugin \<Rightarrow> Cmd" where
  "package_cmd p = Command helmBin [''package'', ''--version'', ChartVersion p, ChartPath p]"

definition copy_cmd :: "Plugin \<Rightarrow> Cmd" where
  "copy_cmd p =
     Command gsutilBin [''cp'', Package p @ ''-'' @ ChartVersion p @ ''.tgz'', ''gs://'' @ Bucket p]"

definition upgrade_cmd :: "Plugin \<Rightarrow> string list \<Rightarrow> Cmd" where
  "upgrade_cmd p vals =
     Command helmBin
       [''upgrade'', Package p, Package p @ ''-'' @ ChartVersion p @ ''.tgz'',
        ''--set'', Join (vals @ [''namespace='' @ Namespace p]) '','',
        ''--install'', ''--namespace'', Namespace p]"

definition init_cmd :: Cmd where
  "init_cmd = Command helmBin [''init'', ''--client-only'']"

definition view_cmd :: Cmd where
  "view_cmd = Command kubectlBin [''config'', ''view'']"

text \<open>The steps of the deploy stage for the overrides \<open>vals\<close>: under \<open>debug\<close> the
  dump of the cluster configuration comes first.\<close>

definition deploy_steps :: "Plugin \<Rightarrow> string list \<Rightarrow> op list" where
  "deploy_steps p vals =
     (if Debug p then [Trace (Args view_cmd), Run (view_cmd\<lparr>Stdio := True\<rparr>)] else []) @
     cmd_ops p (upgrade_cmd p vals)"

text \<open>The handler that matches a stage identifier.\<close>

definition handler :: "env \<Rightarrow> Plugin \<Rightarrow> string \<Rightarrow> world \<Rightarrow> error option \<times> world" where
  "handler e p a w =
     (if a = ''create'' then createPackage e p w
      else if a = ''push'' then pushPackage e p w
      else if a = ''deploy'' then deployPackage e p w
      else (Some UnknownAction, w))"

definition recognized :: "string \<Rightarrow> bool" where
  "recognized a = (a = ''create'' \<or> a = ''push'' \<or> a = ''deploy'')"

text \<open>A slice header is well formed in a store: its array is allocated and has the
  header's capacity, which bounds the length.\<close>

definition wf_slice :: "world \<Rightarrow> slice \<Rightarrow> bool" where
  "wf_slice w s =
     (slice_len s \<le> slice_cap s \<and> length (heap w (slice_ptr s)) = slice_cap s \<and>
      slice_ptr s < nextaddr w)"

text \<open>What has been done since the world \<open>w\<close>.\<close>

definition events_since :: "world \<Rightarrow> world \<Rightarrow> op list" where
  "events_since w w' = drop (length (events w)) (events w')"

text \<open>The two messages \<open>main\<close> logs around the execute call.\<close>

definition warn_retry :: op where
  "warn_retry = Warn ''Plugin execution failed. Waiting 10 seconds and retrying!''"

definition fatal_exec :: op where
  "fatal_exec = Fatal ''failed to execute plugin''"

text \<open>An execute attempt that gets as far as an unrecognized identifier behind the
  actions \<open>pre\<close>: provisioning, initialization, the actions \<open>pre\<close>, and then the error
  \<open>unknown action\<close>, with nothing run after it. The result is the error the attempt ends
  with and the world it leaves.\<close>

definition attempt_to_unknown :: "env \<Rightarrow> Plugin \<Rightarrow> string list \<Rightarrow> world \<Rightarrow> error \<times> world" where
  "attempt_to_unknown e p pre w =
     (case setupProject e p w of
        (Some err, w1) \<Rightarrow> (err, w1)
      | (None, w1) \<Rightarrow>
          (case helmInit e p w1 of
             (Some err, w2) \<Rightarrow> (err, w2)
           | (None, w2) \<Rightarrow>
               (case Exec_actions e p pre w2 of
                  (Some err, w3) \<Rightarrow> (err, w3)
                | (None, w3) \<Rightarrow> (UnknownAction, w3))))"

text \<open>Every operation a run can perform after default resolution, for the overrides
  \<open>vals\<close> and a temporary file \<open>n\<close>.\<close>

definition program_ops :: "Plugin \<Rightarrow> string list \<Rightarrow> string \<Rightarrow> op list" where
  "program_ops p vals n =
     provision_steps p n @ [record_path n] @ cmd_ops p init_cmd @ cmd_ops p (package_cmd p) @
     cmd_ops p (copy_cmd p) @ deploy_steps p vals @ [warn_retry, fatal_exec]"

text \<open>The invariant of a run started in \<open>w0\<close>: the caller's \<open>values\<close> header is well
  formed and shows \<open>vals\<close>, and what has been done since is drawn from \<open>program_ops\<close>.\<close>

definition run_inv :: "Plugin \<Rightarrow> string list \<Rightarrow> world \<Rightarrow> world \<Rightarrow> bool" where
  "run_inv p vals w0 w =
     (wf_slice w (Values p) \<and> slice_elems w (Values p) = vals \<and>
      (\<exists>new. events w = events w0 @ new \<and>
             (\<forall>x\<in>set new. \<exists>n. x \<in> set (program_ops p vals n))))"

text \<open>An operation is not a deployment, or deploys with the overrides \<open>vals\<close> followed
  by the one namespace entry.\<close>

fun deploys_with :: "Plugin \<Rightarrow> string list \<Rightarrow> op \<Rightarrow> bool" where
  "deploys_with p vals (Run cmd) =
     (if take 2 (Args cmd) = [helmBin, ''upgrade''] then Args cmd = Args (upgrade_cmd p vals)
      else True)"
| "deploys_with p vals _ = True"

section \<open>Concrete inputs\<close>

text \<open>Every operation succeeds.\<close>

definition env_ok :: env where
  "env_ok = \<lparr>succeeds = (\<lambda>h x. True), tmpname = (\<lambda>h. ''/tmp/auth-key.json123''),
             growcap = (\<lambda>c n. 2 * c)\<rparr>"

text \<open>The fourth operation of the run (the first credential activation) fails.\<close>

definition env_activation_fails_once :: env where
  "env_activation_fails_once =
     \<lparr>succeeds = (\<lambda>h x. length h \<noteq> 3), tmpname = (\<lambda>h. ''/tmp/auth-key.json123''),
      growcap = (\<lambda>c n. 2 * c)\<rparr>"

text \<open>The tenth operation of the run fails.\<close>

definition env_tenth_fails :: env where
  "env_tenth_fails =
     \<lparr>succeeds = (\<lambda>h x. length h \<noteq> 9), tmpname = (\<lambda>h. ''/tmp/auth-key.json123''),
      growcap = (\<lambda>c n. 2 * c)\<rparr>"

text \<open>The eleventh operation of the run fails.\<close>

definition env_eleventh_fails :: env where
  "env_eleventh_fails =
     \<lparr>succeeds = (\<lambda>h x. length h \<noteq> 10), tmpname = (\<lambda>h. ''/tmp/auth-key.json123''),
      growcap = (\<lambda>c n. 2 * c)\<rparr>"

text \<open>Every copy to the artifact store fails.\<close>

definition env_copy_fails :: env where
  "env_copy_fails =
     \<lparr>succeeds = (\<lambda>h x. case x of Run cmd \<Rightarrow> take 2 (Args cmd) \<noteq> [gsutilBin, ''cp''] | _ \<Rightarrow> True),
      tmpname = (\<lambda>h. ''/tmp/auth-key.json123''),
      growcap = (\<lambda>c n. 2 * c)\<rparr>"

definition nil_slice :: slice where
  "nil_slice = \<lparr>slice_ptr = 0, slice_len = 0, slice_cap = 0\<rparr>"

definition world0 :: world where
  "world0 = \<lparr>events = [], heap = (\<lambda>a. []), nextaddr = 1\<rparr>"

text \<open>A store whose array 0 holds one override and one spare cell.\<close>

definition world_spare :: world where
  "world_spare =
     \<lparr>events = [], heap = (\<lambda>a. if a = 0 then [''a=1'', []] else []), nextaddr = 1\<rparr>"

definition cfg_scenario :: "string list \<Rightarrow> Plugin" where
  "cfg_scenario acts =
     \<lparr>Debug = False, ShowEnv = False, Actions = acts, AuthKey = ''key'', Zone = ''z'',
      Cluster = ''c'', Project = ''proj'', Namespace = [], ChartRepo = [],
      Bucket = ''my-bucket'', ChartPath = ''/charts/myapp'', ChartVersion = ''1.2.3'',
      Package = [], Release = [], Values = nil_slice\<rparr>"

definition cfg_trailing_slash :: Plugin where
  "cfg_trailing_slash = (cfg_scenario [''create''])\<lparr>ChartPath := ''/charts/myapp/''\<rparr>"

definition cfg_release :: Plugin where
  "cfg_release = (cfg_scenario [''deploy''])\<lparr>Package := ''pkg'', Release := ''rel''\<rparr>"

definition cfg_spare :: Plugin where
  "cfg_spare =
     (cfg_scenario [''deploy'', ''deploy''])
       \<lparr>Namespace := ''prod'', Package := ''myapp'', Release := ''myapp'',
        Values := \<lparr>slice_ptr = 0, slice_len = 1, slice_cap = 2\<rparr>\<rparr>"

section \<open>Properties of default resolution\<close>

lemma Split_not_Nil: "Split s sep \<noteq> []"
  by (induction s) (auto split: list.splits)

lemma length_Split: "length (Split s sep) = Suc (length (filter (\<lambda>c. c = sep) s))"
  by (induction s) (auto split: list.splits)

lemma Split_single: "Split s sep = [x] \<Longrightarrow> sep \<notin> set s"
  using length_Split [of s sep] by (auto simp: filter_empty_conv)

lemma Split_many: "Split s sep = x # y # ys \<Longrightarrow> sep \<in> set s"
proof (rule ccontr)
  assume a: "Split s sep = x # y # ys" and n: "sep \<notin> set s"
  from n have "filter (\<lambda>c. c = sep) s = []" by (auto simp: filter_empty_conv)
  with a length_Split [of s sep] show False by simp
qed

text \<open>The element \<open>s[len(s)-1]\<close> of the split path is the suffix behind the last
  separator.\<close>

lemma last_Split: "last (Split s sep) = rev (takeWhile (\<lambda>c. c \<noteq> sep) (rev s))"
proof (induction s)
  case Nil
  show ?case by simp
next
  case (Cons c cs)
  show ?case
  proof (cases "c = sep")
    case True
    then show ?thesis using Cons Split_not_Nil [of cs sep]
      by (simp add: takeWhile_append)
  next
    case False
    show ?thesis
    proof (cases "Split cs sep")
      case Nil
      then show ?thesis using Split_not_Nil [of cs sep] by simp
    next
      case (Cons x xs)
      show ?thesis
      proof (cases xs)
        case Nil
        with Cons have "sep \<notin> set cs" using Split_single by blast
        then have tw: "takeWhile (\<lambda>c. c \<noteq> sep) (rev cs) = rev cs"
          by (auto simp: takeWhile_eq_all_conv)
        have xcs: "x = cs" using Cons.IH Cons Nil by (simp add: tw)
        have tw2: "takeWhile (\<lambda>c. c \<noteq> sep) (rev (c # cs)) = rev (c # cs)"
          using False \<open>sep \<notin> set cs\<close> by (auto simp: takeWhile_eq_all_conv)
        show ?thesis using False Cons Nil xcs
          by (simp add: tw2 del: rev.simps)
      next
        case (Cons y ys)
        with \<open>Split cs sep = x # xs\<close> have "sep \<in> set cs" using Split_many by blast
        then show ?thesis using False \<open>Split cs sep = x # xs\<close> Cons Cons.IH
          by (auto simp add: takeWhile_append)
      qed
    qed
  qed
qed

lemma final_segment_suffix: "\<exists>pre. s = pre @ final_segment s"
  unfolding final_segment_def
  by (metis rev_append rev_rev_ident takeWhile_dropWhile_id)

lemma final_segment_no_slash: "CHR ''/'' \<notin> set (final_segment s)"
  unfolding final_segment_def using set_takeWhileD by fastforce

lemma final_segment_after_slash:
  "CHR ''/'' \<notin> set seg \<Longrightarrow> final_segment (pre @ CHR ''/'' # seg) = seg"
  unfolding final_segment_def by (simp add: takeWhile_append takeWhile_eq_all_conv)

lemma final_segment_Nil_iff: "final_segment s = [] \<longleftrightarrow> s = [] \<or> last s = CHR ''/''"
  unfolding final_segment_def
  by (cases s rule: rev_cases) (auto simp: takeWhile_eq_Nil_iff)

lemma pp_Package:
  "Package (snd (preparePlugin p)) =
     (if Package p = [] then final_segment (ChartPath p) else Package p)"
  by (simp add: preparePlugin_def Let_def last_Split final_segment_def)

lemma pp_Release:
  "Release (snd (preparePlugin p)) =
     (if Release p = [] then Package (snd (preparePlugin p)) else Release p)"
  by (simp add: preparePlugin_def Let_def)

lemma pp_ChartRepo:
  "ChartRepo (snd (preparePlugin p)) =
     (if ChartRepo p = [] \<and> Bucket p \<noteq> []
      then ''https://'' @ Bucket p @ ''.storage.googleapis.com/''
      else ChartRepo p)"
  by (simp add: preparePlugin_def Let_def)

lemma pp_Namespace:
  "Namespace (snd (preparePlugin p)) = (if Namespace p = [] then ''default'' else Namespace p)"
  by (simp add: preparePlugin_def Let_def)

lemma pp_frame:
  "(snd (preparePlugin p))\<lparr>Package := Package p, Release := Release p,
      ChartRepo := ChartRepo p, Namespace := Namespace p\<rparr> = p"
  by (simp add: preparePlugin_def Let_def)

lemma pp_total: "fst (preparePlugin p) = None"
  by (simp add: preparePlugin_def Let_def)

lemma pp_ChartPath: "ChartPath (snd (preparePlugin p)) = ChartPath p"
  using arg_cong [OF pp_frame, of ChartPath p] by simp

lemma pp_Bucket: "Bucket (snd (preparePlugin p)) = Bucket p"
  using arg_cong [OF pp_frame, of Bucket p] by simp

lemma pp_Actions: "Actions (snd (preparePlugin p)) = Actions p"
  using arg_cong [OF pp_frame, of Actions p] by simp

lemma pp_Values: "Values (snd (preparePlugin p)) = Values p"
  using arg_cong [OF pp_frame, of Values p] by simp

lemma pp_idem: "snd (preparePlugin (snd (preparePlugin p))) = snd (preparePlugin p)"
proof -
  define q where "q = snd (preparePlugin p)"
  define r where "r = snd (preparePlugin q)"
  have 1: "Package r = Package q"
    unfolding r_def q_def by (simp add: pp_Package pp_ChartPath)
  have 2: "Release r = Release q"
    unfolding r_def q_def by (simp add: pp_Release pp_Package pp_ChartPath)
  have 3: "ChartRepo r = ChartRepo q"
    unfolding r_def q_def by (simp add: pp_ChartRepo pp_Bucket)
  have 4: "Namespace r = Namespace q"
    unfolding r_def q_def by (simp add: pp_Namespace)
  have "r = r\<lparr>Package := Package r, Release := Release r, ChartRepo := ChartRepo r,
        Namespace := Namespace r\<rparr>" by simp
  also have "\<dots> = r\<lparr>Package := Package q, Release := Release q, ChartRepo := ChartRepo q,
        Namespace := Namespace q\<rparr>" by (simp only: 1 2 3 4)
  also have "\<dots> = q" unfolding r_def by (rule pp_frame)
  finally show ?thesis unfolding r_def q_def .
qed

text \<open>
  C4. Default resolution, for every configuration \<open>p\<close>: an empty \<open>package\<close> becomes the
  final \<open>/\<close>-separated segment of \<open>chartPath\<close>; an empty \<open>release\<close> becomes the package
  as it is after that step; an empty \<open>chartRepo\<close> with a non-empty \<open>bucket\<close> becomes the
  storage URL built on the bucket; an empty \<open>namespace\<close> becomes \<open>default\<close>; a field
  that was set keeps its value, and no other field changes.
\<close>

theorem preparePlugin_defaults:
  "(let q = snd (preparePlugin p) in
      Package q = (if Package p = [] then final_segment (ChartPath p) else Package p) \<and>
      Release q = (if Release p = [] then Package q else Release p) \<and>
      ChartRepo q = (if ChartRepo p = [] \<and> Bucket p \<noteq> []
                     then ''https://'' @ Bucket p @ ''.storage.googleapis.com/''
                     else ChartRepo p) \<and>
      Namespace q = (if Namespace p = [] then ''default'' else Namespace p) \<and>
      q\<lparr>Package := Package p, Release := Release p, ChartRepo := ChartRepo p,
        Namespace := Namespace p\<rparr> = p)"
  unfolding Let_def
  using pp_Package [of p] pp_Release [of p] pp_ChartRepo [of p] pp_Namespace [of p]
    pp_frame [of p]
  by (simp only: simp_thms)

text \<open>
  C9. Default resolution never fails, and resolving a resolved configuration changes
  nothing: the second application returns what the first returned.
\<close>

theorem preparePlugin_idempotent_total:
  "fst (preparePlugin p) = None \<and>
   preparePlugin (snd (preparePlugin p)) = preparePlugin p"
proof -
  have "preparePlugin (snd (preparePlugin p)) = (None, snd (preparePlugin p))"
    using pp_total [of "snd (preparePlugin p)"] pp_idem [of p]
    by (metis prod.collapse)
  also have "\<dots> = preparePlugin p"
    using pp_total [of p] by (metis prod.collapse)
  finally show ?thesis using pp_total [of p] by simp
qed

text \<open>
  C7, as stated, fails: a chart path that ends in \<open>/\<close> has an empty final segment, and
  with \<open>package\<close> and \<open>release\<close> unset both stay empty.
\<close>

theorem preparePlugin_empty_package_counterexample:
  "Package (snd (preparePlugin cfg_trailing_slash)) = [] \<and>
   Release (snd (preparePlugin cfg_trailing_slash)) = []"
  by (simp add: pp_Package pp_Release final_segment_def cfg_trailing_slash_def
      cfg_scenario_def)

text \<open>
  C7, amended. When \<open>package\<close> is set, or \<open>chartPath\<close> is non-empty and does not end in
  \<open>/\<close>, then \<open>package\<close> and \<open>release\<close> are non-empty after default resolution.
\<close>

theorem preparePlugin_nonempty:
  "Package p \<noteq> [] \<or> (ChartPath p \<noteq> [] \<and> last (ChartPath p) \<noteq> CHR ''/'') \<Longrightarrow>
   Package (snd (preparePlugin p)) \<noteq> [] \<and> Release (snd (preparePlugin p)) \<noteq> []"
  using final_segment_Nil_iff [of "ChartPath p"]
  by (auto simp add: pp_Package pp_Release)

theorem preparePlugin_nonempty_witness:
  "ChartPath (cfg_scenario []) \<noteq> [] \<and> last (ChartPath (cfg_scenario [])) \<noteq> CHR ''/'' \<and>
   Package (snd (preparePlugin (cfg_scenario []))) = ''myapp'' \<and>
   Release (snd (preparePlugin (cfg_scenario []))) = ''myapp''"
  using preparePlugin_nonempty [of "cfg_scenario []"]
  by (simp add: pp_Package pp_Release final_segment_def cfg_scenario_def)

section \<open>Operations and step lists\<close>

lemma snd_perform: "snd (perform e x w) = w\<lparr>events := events w @ [x]\<rparr>"
  by (simp add: perform_def)

lemma fst_perform:
  "fst (perform e x w) =
     (if infallible x \<or> succeeds e (events w) x then None else Some (OpFailed x))"
  by (simp add: perform_def)

lemma emit_events: "emit e x w = w\<lparr>events := events w @ [x]\<rparr>"
  by (simp add: emit_def snd_perform)

lemma perform_all_single: "perform_all e [x] w = perform e x w"
  by (simp add: perform_def)

lemma perform_all_append:
  "perform_all e (xs @ ys) w =
     (case perform_all e xs w of
        (Some err, w1) \<Rightarrow> (Some err, w1)
      | (None, w1) \<Rightarrow> perform_all e ys w1)"
  by (induction xs arbitrary: w) (auto split: prod.splits option.splits)

lemma perform_all_eq:
  "perform_all e xs w =
     (first_error e (events w) xs, w\<lparr>events := events w @ attempted e (events w) xs\<rparr>)"
  by (induction xs arbitrary: w) (simp_all add: perform_def)

lemma attempted_prefix: "\<exists>k. attempted e h xs = take k xs"
proof (induction xs arbitrary: h)
  case Nil
  show ?case by simp
next
  case (Cons x xs)
  show ?case
  proof (cases "infallible x \<or> succeeds e h x")
    case True
    from Cons [of "h @ [x]"] obtain k where "attempted e (h @ [x]) xs = take k xs" by blast
    with True have "attempted e h (x # xs) = take (Suc k) (x # xs)" by simp
    then show ?thesis by blast
  next
    case False
    then have "attempted e h (x # xs) = take 1 (x # xs)" by simp
    then show ?thesis by blast
  qed
qed

lemma attempted_subset: "set (attempted e h xs) \<subseteq> set xs"
  using attempted_prefix [of e h xs] by (metis set_take_subset)

lemma attempted_append:
  "attempted e h (xs @ ys) =
     (if first_error e h xs = None then xs @ attempted e (h @ xs) ys else attempted e h xs)"
  by (induction xs arbitrary: h) auto

lemma first_error_append:
  "first_error e h (xs @ ys) =
     (if first_error e h xs = None then first_error e (h @ xs) ys else first_error e h xs)"
  by (induction xs arbitrary: h) auto

lemma events_since_append [simp]: "events_since w (w'\<lparr>events := events w @ xs\<rparr>) = xs"
  by (simp add: events_since_def)

lemma run_debug:
  "(case debug_cmd e p cmd w of (c, w1) \<Rightarrow> perform e (Run c) w1) =
     perform_all e (cmd_ops p cmd) w"
  by (simp add: debug_cmd_def cmd_ops_def trace_def emit_events perform_def)

lemma case_id: "(case r of (Some err, w1) \<Rightarrow> (Some err, w1) | (None, w1) \<Rightarrow> (None, w1)) = r"
  by (auto split: prod.splits option.splits)

lemma createPackage_steps: "createPackage e p w = perform_all e (cmd_ops p (package_cmd p)) w"
  by (simp add: createPackage_def package_cmd_def run_debug [symmetric] Let_def)

lemma pushPackage_steps: "pushPackage e p w = perform_all e (cmd_ops p (copy_cmd p)) w"
  by (simp add: pushPackage_def copy_cmd_def run_debug [symmetric] Let_def case_id
      split: prod.splits)

lemma helmInit_steps: "helmInit e p w = perform_all e (cmd_ops p init_cmd) w"
  by (simp add: helmInit_def init_cmd_def run_debug [symmetric] Let_def case_id
      split: prod.splits)

lemma kubeConfig_steps:
  "kubeConfig e p w =
     perform_all e [Trace (Args view_cmd), Run (view_cmd\<lparr>Stdio := True\<rparr>)] w"
  by (simp add: kubeConfig_def view_cmd_def trace_def emit_events perform_def Let_def)

lemma setupProject_steps:
  "setupProject e p w =
     perform_all e
       (provision_steps p (tmpname e (events w)) @ [record_path (tmpname e (events w))]) w"
proof (cases "Debug p")
  case True
  then show ?thesis
    unfolding perform_all_eq
    by (simp add: setupProject_def tempFile_def debug_cmd_def trace_def emit_events
        perform_def provision_steps_def cmd_ops_def activate_cmd_def project_cmd_def
        cluster_cmd_def record_path_def Let_def)
next
  case False
  then show ?thesis
    unfolding perform_all_eq
    by (simp add: setupProject_def tempFile_def debug_cmd_def trace_def emit_events
        perform_def provision_steps_def cmd_ops_def activate_cmd_def project_cmd_def
        cluster_cmd_def record_path_def Let_def)
qed

lemma record_path_not_step: "record_path n \<notin> set (provision_steps p n')"
  by (simp add: record_path_def provision_steps_def cmd_ops_def)

text \<open>
  C5. Credential provisioning performs, in this order, the creation of the temporary file
  (\<open>ioutil.TempFile\<close>, which makes a new file of a fresh name with mode 0600), the write
  of \<open>authKey\<close> to it, its close, the activation of the service credential from it, the
  selection of the project and the fetch of the cluster credentials, and at last the
  recording of the file's path in the process environment. The first step that fails ends
  provisioning with that step's error; recording the path is attempted exactly when every
  step before it succeeded.
\<close>

theorem setupProject_provisioning:
  "(let name = tmpname e (events w); steps = provision_steps p name in
      setupProject e p w = perform_all e (steps @ [record_path name]) w \<and>
      fst (setupProject e p w) = first_error e (events w) (steps @ [record_path name]) \<and>
      (record_path name \<in> set (events_since w (snd (setupProject e p w)))) =
        (first_error e (events w) steps = None))"
proof -
  let ?n = "tmpname e (events w)"
  let ?steps = "provision_steps p ?n"
  have a: "setupProject e p w = perform_all e (?steps @ [record_path ?n]) w"
    by (rule setupProject_steps)
  have b: "fst (setupProject e p w) = first_error e (events w) (?steps @ [record_path ?n])"
    unfolding a by (simp add: perform_all_eq)
  have c: "events_since w (snd (setupProject e p w)) =
             attempted e (events w) (?steps @ [record_path ?n])"
    unfolding a by (simp add: perform_all_eq)
  have d: "(record_path ?n \<in> set (attempted e (events w) (?steps @ [record_path ?n]))) =
             (first_error e (events w) ?steps = None)"
  proof (cases "first_error e (events w) ?steps = None")
    case True
    then show ?thesis by (simp add: attempted_append)
  next
    case False
    have "record_path ?n \<notin> set (attempted e (events w) ?steps)"
      using attempted_subset [of e "events w" ?steps] record_path_not_step [of ?n p ?n]
      by blast
    with False show ?thesis by (simp add: attempted_append)
  qed
  show ?thesis unfolding Let_def using a b c d by simp
qed

section \<open>Slices and the deploy stage\<close>

lemma slice_elems_events [simp]: "slice_elems (w\<lparr>events := h\<rparr>) s = slice_elems w s"
  by (simp add: slice_elems_def)

lemma wf_slice_events [simp]: "wf_slice (w\<lparr>events := h\<rparr>) s = wf_slice w s"
  by (simp add: wf_slice_def)

lemma append_slice_events: "events (snd (append_slice e s v w)) = events w"
  by (simp add: append_slice_def Let_def)

text \<open>The header \<open>append\<close> returns shows the old elements and the new one.\<close>

lemma append_slice_view:
  "wf_slice w s \<Longrightarrow>
   slice_elems (snd (append_slice e s v w)) (fst (append_slice e s v w)) = slice_elems w s @ [v]"
  by (auto simp add: append_slice_def wf_slice_def slice_elems_def Let_def take_Suc_conv_app_nth)

text \<open>The header it was given shows what it showed before, although the array behind
  it may have been written.\<close>

lemma append_slice_frame:
  "wf_slice w s \<Longrightarrow>
   wf_slice (snd (append_slice e s v w)) s \<and>
   slice_elems (snd (append_slice e s v w)) s = slice_elems w s"
  by (auto simp add: append_slice_def wf_slice_def slice_elems_def Let_def)

lemma deployPackage_fst_events:
  assumes "wf_slice w (Values p)"
  shows "fst (deployPackage e p w) =
           first_error e (events w) (deploy_steps p (slice_elems w (Values p))) \<and>
         events (snd (deployPackage e p w)) =
           events w @ attempted e (events w) (deploy_steps p (slice_elems w (Values p)))"
proof (cases "Debug p")
  case False
  then show ?thesis
    using append_slice_view [OF assms, of e "''namespace='' @ Namespace p"]
    by (simp add: deployPackage_def debug_cmd_def Let_def split_beta append_slice_events
        perform_def deploy_steps_def cmd_ops_def upgrade_cmd_def Command_def)
next
  case True
  let ?w1 = "w\<lparr>events := events w @ [Trace (Args view_cmd), Run (view_cmd\<lparr>Stdio := True\<rparr>)]\<rparr>"
  have wf1: "wf_slice ?w1 (Values p)" using assms by simp
  show ?thesis
    using True append_slice_view [OF wf1, of e "''namespace='' @ Namespace p"]
    by (simp add: deployPackage_def kubeConfig_steps perform_all_eq debug_cmd_def Let_def
        split_beta append_slice_events trace_def emit_events
        perform_def deploy_steps_def cmd_ops_def upgrade_cmd_def Command_def)
qed

lemma deployPackage_frame:
  assumes "wf_slice w (Values p)"
  shows "wf_slice (snd (deployPackage e p w)) (Values p) \<and>
         slice_elems (snd (deployPackage e p w)) (Values p) = slice_elems w (Values p)"
proof (cases "Debug p")
  case False
  then show ?thesis
    using append_slice_frame [OF assms, of e "''namespace='' @ Namespace p"]
    by (simp add: deployPackage_def debug_cmd_def Let_def split_beta perform_def)
next
  case True
  let ?w1 = "w\<lparr>events := events w @ [Trace (Args view_cmd), Run (view_cmd\<lparr>Stdio := True\<rparr>)]\<rparr>"
  have wf1: "wf_slice ?w1 (Values p)" using assms by simp
  show ?thesis
    using True assms append_slice_frame [OF wf1, of e "''namespace='' @ Namespace p"]
    by (simp add: deployPackage_def kubeConfig_steps perform_all_eq debug_cmd_def Let_def
        split_beta trace_def emit_events perform_def)
qed

text \<open>
  C2, as stated, fails: the release name passed to the deployment tool is \<open>package\<close>,
  not \<open>release\<close>. With package \<open>pkg\<close> and release \<open>rel\<close> the tool is called for
  \<open>pkg\<close>.
\<close>

theorem deployPackage_release_counterexample:
  "Release (snd (preparePlugin cfg_release)) = ''rel'' \<and>
   events (snd (deployPackage env_ok (snd (preparePlugin cfg_release)) world0)) =
     [Run \<lparr>Args = [''/opt/google-cloud-sdk/bin/helm'', ''upgrade'', ''pkg'',
                   ''pkg-1.2.3.tgz'', ''--set'', ''namespace=default'', ''--install'',
                   ''--namespace'', ''default''], Stdio = False\<rparr>]"
  by (simp add: preparePlugin_def cfg_release_def cfg_scenario_def deployPackage_def
      world0_def env_ok_def append_slice_def nil_slice_def slice_elems_def debug_cmd_def
      perform_def Command_def helmBin_def Let_def)

text \<open>
  C2, amended. For every configuration whose \<open>values\<close> slice is well formed, the deploy
  stage calls the upgrade operation of the deployment tool with the name \<open>package\<close>, the
  file \<open><package>-<chartVersion>.tgz\<close>, \<open>--set\<close> with the comma-joined values followed
  by the single entry \<open>namespace=<namespace>\<close>, \<open>--install\<close>, and
  \<open>--namespace <namespace>\<close>. Under \<open>debug\<close> the dump of the cluster configuration
  runs first, and when it fails the tool is not called.
\<close>

theorem deployPackage_command:
  assumes "wf_slice w (Values p)"
  shows "(let vals = slice_elems w (Values p); cmd = upgrade_cmd p vals in
      Args cmd =
        [helmBin, ''upgrade'', Package p, Package p @ ''-'' @ ChartVersion p @ ''.tgz'',
         ''--set'', Join (vals @ [''namespace='' @ Namespace p]) '','',
         ''--install'', ''--namespace'', Namespace p] \<and>
      events_since w (snd (deployPackage e p w)) =
        (if Debug p then
           (if succeeds e (events w @ [Trace (Args view_cmd)]) (Run (view_cmd\<lparr>Stdio := True\<rparr>))
            then [Trace (Args view_cmd), Run (view_cmd\<lparr>Stdio := True\<rparr>),
                  Trace (Args cmd), Run (cmd\<lparr>Stdio := True\<rparr>)]
            else [Trace (Args view_cmd), Run (view_cmd\<lparr>Stdio := True\<rparr>)])
         else [Run cmd]) \<and>
      fst (deployPackage e p w) = first_error e (events w) (deploy_steps p vals))"
proof -
  have a: "events_since w (snd (deployPackage e p w)) =
             attempted e (events w) (deploy_steps p (slice_elems w (Values p)))"
    using deployPackage_fst_events [OF assms, of e] by (simp add: events_since_def)
  show ?thesis
    unfolding Let_def a
    using deployPackage_fst_events [OF assms, of e]
    by (simp add: deploy_steps_def cmd_ops_def upgrade_cmd_def Command_def)
qed

theorem deployPackage_command_witness:
  "wf_slice world_spare (Values cfg_spare) \<and>
   events_since world_spare (snd (deployPackage env_ok cfg_spare world_spare)) =
     [Run \<lparr>Args = [''/opt/google-cloud-sdk/bin/helm'', ''upgrade'', ''myapp'',
                   ''myapp-1.2.3.tgz'', ''--set'', ''a=1,namespace=prod'', ''--install'',
                   ''--namespace'', ''prod''], Stdio = False\<rparr>]"
  using deployPackage_command [of world_spare cfg_spare env_ok]
  by (simp add: wf_slice_def world_spare_def cfg_spare_def cfg_scenario_def slice_elems_def
      upgrade_cmd_def Command_def helmBin_def)

section \<open>The action loop and the retry around it\<close>

lemma handler_Cons:
  "Exec_actions e p (a # as) w =
     (case handler e p a w of
        (Some err, w1) \<Rightarrow> (Some err, w1)
      | (None, w1) \<Rightarrow> Exec_actions e p as w1)"
  by (simp add: handler_def createPkg_def pushPkg_def deployPkg_def)


lemma Exec_actions_append:
  "Exec_actions e p (xs @ ys) w =
     (case Exec_actions e p xs w of
        (Some err, w1) \<Rightarrow> (Some err, w1)
      | (None, w1) \<Rightarrow> Exec_actions e p ys w1)"
proof (induction xs arbitrary: w)
  case Nil
  show ?case by simp
next
  case (Cons a xs)
  show ?case
    unfolding append_Cons handler_Cons
    by (cases "handler e p a w") (simp add: Cons.IH split: option.splits)
qed

lemma handler_unknown: "\<not> recognized a \<Longrightarrow> handler e p a w = (Some UnknownAction, w)"
  by (simp add: handler_def recognized_def)

lemma Exec_actions_unknown:
  assumes "\<not> recognized bad"
  shows "Exec_actions e p (pre @ bad # post) w =
     (case Exec_actions e p pre w of
        (Some err, w1) \<Rightarrow> (Some err, w1)
      | (None, w1) \<Rightarrow> (Some UnknownAction, w1))"
  unfolding Exec_actions_append handler_Cons
  by (cases "Exec_actions e p pre w") (simp add: handler_unknown [OF assms] split: option.splits)

lemma Exec_actions_fails:
  assumes "bad \<in> set as" and "\<not> recognized bad"
  shows "fst (Exec_actions e p as w) \<noteq> None"
proof -
  from assms(1) obtain pre post where "as = pre @ bad # post"
    by (auto simp: in_set_conv_decomp)
  then show ?thesis
    using Exec_actions_unknown [OF assms(2), of e p pre post w]
    by (cases "Exec_actions e p pre w") (auto split: option.splits)
qed

lemma main_eq: "main e p w = main_exec e (snd (preparePlugin p)) w"
proof -
  have "preparePlugin p = (None, snd (preparePlugin p))"
    using pp_total [of p] by (metis prod.collapse)
  then show ?thesis unfolding main_def by (metis (mono_tags, lifting) old.prod.case option.simps(4))
qed

lemma Exec_prefix:
  "Exec e p w =
     (case perform_all e
             (provision_steps p (tmpname e (events w)) @ [record_path (tmpname e (events w))] @
              cmd_ops p init_cmd) w of
        (Some err, w1) \<Rightarrow> (Some err, w1)
      | (None, w1) \<Rightarrow> Exec_actions e p (Actions p) w1)"
proof -
  let ?n = "tmpname e (events w)"
  have "perform_all e (provision_steps p ?n @ [record_path ?n] @ cmd_ops p init_cmd) w =
          (case setupProject e p w of
             (Some err, w1) \<Rightarrow> (Some err, w1)
           | (None, w1) \<Rightarrow> helmInit e p w1)"
    using perform_all_append [of e "provision_steps p ?n @ [record_path ?n]" "cmd_ops p init_cmd" w]
    by (simp add: setupProject_steps helmInit_steps split: prod.splits option.splits)
  then show ?thesis
    unfolding Exec_def
    by (cases "setupProject e p w"; cases "helmInit e p (snd (setupProject e p w))")
       (auto split: option.splits)
qed

lemma main_exec_retry:
  "main_exec e p w =
     (case Exec e p w of
        (None, w1) \<Rightarrow> (ExitOK, w1)
      | (Some err1, w1) \<Rightarrow>
          (case Exec e p (w1\<lparr>events := events w1 @ [warn_retry]\<rparr>) of
             (None, w2) \<Rightarrow> (ExitOK, w2)
           | (Some err, w2) \<Rightarrow>
               (ExitFatal ''failed to execute plugin'' err,
                w2\<lparr>events := events w2 @ [fatal_exec]\<rparr>)))"
  by (simp add: main_exec_def emit_events warn_retry_def fatal_exec_def Let_def
      split: prod.splits option.splits)

lemma Exec_fails:
  assumes "bad \<in> set (Actions p)" and "\<not> recognized bad"
  shows "fst (Exec e p w) \<noteq> None"
proof (cases "perform_all e
             (provision_steps p (tmpname e (events w)) @ [record_path (tmpname e (events w))] @
              cmd_ops p init_cmd) w")
  case (Pair r w1)
  then show ?thesis
    unfolding Exec_prefix
    using Exec_actions_fails [OF assms, of e p w1]
    by (cases r) auto
qed


lemma Exec_to_unknown:
  assumes "\<not> recognized bad" and "Actions p = pre @ bad # post"
  shows "Exec e p w =
           (Some (fst (attempt_to_unknown e p pre w)), snd (attempt_to_unknown e p pre w))"
  unfolding Exec_def attempt_to_unknown_def assms(2) Exec_actions_unknown [OF assms(1)]
  by (simp split: prod.splits option.splits)


section \<open>What a run can do\<close>

lemma run_inv_refl:
  "wf_slice w (Values p) \<Longrightarrow> run_inv p (slice_elems w (Values p)) w w"
  by (simp add: run_inv_def)

lemma run_inv_extend:
  assumes "run_inv p vals w0 w" and "\<forall>x\<in>set xs. \<exists>n. x \<in> set (program_ops p vals n)"
  shows "run_inv p vals w0 (w\<lparr>events := events w @ xs\<rparr>)"
proof -
  from assms(1) obtain new where n: "events w = events w0 @ new"
    "\<forall>x\<in>set new. \<exists>n. x \<in> set (program_ops p vals n)"
    and wf: "wf_slice w (Values p)" "slice_elems w (Values p) = vals"
    unfolding run_inv_def by blast
  have "events (w\<lparr>events := events w @ xs\<rparr>) = events w0 @ (new @ xs)" using n by simp
  moreover have "\<forall>x\<in>set (new @ xs). \<exists>n. x \<in> set (program_ops p vals n)"
    using n(2) assms(2) by auto
  ultimately show ?thesis unfolding run_inv_def using wf by (metis slice_elems_events wf_slice_events)
qed

lemma run_inv_perform_all:
  assumes "run_inv p vals w0 w" and "set xs \<subseteq> set (program_ops p vals n)"
  shows "run_inv p vals w0 (snd (perform_all e xs w))"
proof -
  have "\<forall>x\<in>set (attempted e (events w) xs). \<exists>n. x \<in> set (program_ops p vals n)"
    using attempted_subset [of e "events w" xs] assms(2) by blast
  from run_inv_extend [OF assms(1) this] show ?thesis by (simp add: perform_all_eq)
qed

lemma run_inv_setupProject:
  "run_inv p vals w0 w \<Longrightarrow> run_inv p vals w0 (snd (setupProject e p w))"
  unfolding setupProject_steps
  by (rule run_inv_perform_all [where n = "tmpname e (events w)"]) (auto simp: program_ops_def)

lemma run_inv_helmInit:
  "run_inv p vals w0 w \<Longrightarrow> run_inv p vals w0 (snd (helmInit e p w))"
  unfolding helmInit_steps
  by (rule run_inv_perform_all [where n = "[]"]) (auto simp: program_ops_def)

lemma run_inv_createPackage:
  "run_inv p vals w0 w \<Longrightarrow> run_inv p vals w0 (snd (createPackage e p w))"
  unfolding createPackage_steps
  by (rule run_inv_perform_all [where n = "[]"]) (auto simp: program_ops_def)

lemma run_inv_pushPackage:
  "run_inv p vals w0 w \<Longrightarrow> run_inv p vals w0 (snd (pushPackage e p w))"
  unfolding pushPackage_steps
  by (rule run_inv_perform_all [where n = "[]"]) (auto simp: program_ops_def)

lemma run_inv_deployPackage:
  assumes "run_inv p vals w0 w"
  shows "run_inv p vals w0 (snd (deployPackage e p w))"
proof -
  from assms obtain new where n: "events w = events w0 @ new"
    "\<forall>x\<in>set new. \<exists>n. x \<in> set (program_ops p vals n)"
    and wf: "wf_slice w (Values p)" and el: "slice_elems w (Values p) = vals"
    unfolding run_inv_def by blast
  let ?w = "snd (deployPackage e p w)"
  let ?xs = "attempted e (events w) (deploy_steps p vals)"
  have ev: "events ?w = events w0 @ (new @ ?xs)"
    using deployPackage_fst_events [OF wf, of e] n(1) el by simp
  have "set ?xs \<subseteq> set (program_ops p vals [])"
    using attempted_subset [of e "events w" "deploy_steps p vals"]
    by (auto simp: program_ops_def)
  then have "\<forall>x\<in>set (new @ ?xs). \<exists>n. x \<in> set (program_ops p vals n)"
    using n(2) by auto
  with ev deployPackage_frame [OF wf, of e] el show ?thesis
    unfolding run_inv_def by blast
qed

lemma run_inv_handler:
  "run_inv p vals w0 w \<Longrightarrow> run_inv p vals w0 (snd (handler e p a w))"
  by (simp add: handler_def run_inv_createPackage run_inv_pushPackage run_inv_deployPackage)

lemma run_inv_Exec_actions:
  "run_inv p vals w0 w \<Longrightarrow> run_inv p vals w0 (snd (Exec_actions e p as w))"
proof (induction as arbitrary: w)
  case Nil
  then show ?case by simp
next
  case (Cons a as)
  from run_inv_handler [OF Cons.prems, of e a]
  have h: "run_inv p vals w0 (snd (handler e p a w))" .
  show ?case
    unfolding handler_Cons
    using h Cons.IH [of "snd (handler e p a w)"]
    by (cases "handler e p a w") (auto split: option.splits)
qed

lemma run_inv_Exec:
  assumes "run_inv p vals w0 w"
  shows "run_inv p vals w0 (snd (Exec e p w))"
proof -
  have 1: "run_inv p vals w0 (snd (setupProject e p w))"
    by (rule run_inv_setupProject [OF assms])
  have 2: "run_inv p vals w0 (snd (helmInit e p (snd (setupProject e p w))))"
    by (rule run_inv_helmInit [OF 1])
  have 3: "run_inv p vals w0
             (snd (Exec_actions e p (Actions p) (snd (helmInit e p (snd (setupProject e p w))))))"
    by (rule run_inv_Exec_actions [OF 2])
  show ?thesis
    unfolding Exec_def using 1 2 3
    by (cases "setupProject e p w"; cases "helmInit e p (snd (setupProject e p w))")
       (auto split: option.splits)
qed

lemma run_inv_emit:
  assumes "run_inv p vals w0 w" and "x = warn_retry \<or> x = fatal_exec"
  shows "run_inv p vals w0 (emit e x w)"
proof -
  have "\<forall>y\<in>set [x]. \<exists>n. y \<in> set (program_ops p vals n)"
    using assms(2) by (auto simp: program_ops_def)
  from run_inv_extend [OF assms(1) this] show ?thesis by (simp add: emit_events)
qed

lemma run_inv_main_exec:
  assumes "run_inv p vals w0 w"
  shows "run_inv p vals w0 (snd (main_exec e p w))"
proof -
  let ?w1 = "snd (Exec e p w)"
  let ?w2 = "emit e warn_retry ?w1"
  let ?w3 = "snd (Exec e p ?w2)"
  have 1: "run_inv p vals w0 ?w1" by (rule run_inv_Exec [OF assms])
  have 2: "run_inv p vals w0 ?w2" by (rule run_inv_emit [OF 1]) simp
  have 3: "run_inv p vals w0 ?w3" by (rule run_inv_Exec [OF 2])
  have 4: "run_inv p vals w0 (emit e fatal_exec ?w3)" by (rule run_inv_emit [OF 3]) simp
  show ?thesis
    unfolding main_exec_def Let_def
    using 1 2 3 4
    by (cases "Exec e p w"; cases "Exec e p ?w2")
       (auto simp: warn_retry_def fatal_exec_def split: option.splits)
qed


lemma program_ops_deploys_with: "x \<in> set (program_ops p vals n) \<Longrightarrow> deploys_with p vals x"
  by (auto simp: program_ops_def provision_steps_def cmd_ops_def deploy_steps_def
      record_path_def warn_retry_def fatal_exec_def activate_cmd_def project_cmd_def
      cluster_cmd_def init_cmd_def package_cmd_def copy_cmd_def view_cmd_def upgrade_cmd_def
      Command_def gcloudBin_def gsutilBin_def helmBin_def kubectlBin_def split: if_splits)

lemma run_inv_since:
  assumes "run_inv p vals w0 w"
  shows "\<forall>x\<in>set (events_since w0 w). \<exists>n. x \<in> set (program_ops p vals n)"
  using assms unfolding run_inv_def events_since_def by auto


section \<open>Evaluating runs\<close>

lemma all_ok_attempted: "(\<And>h x. succeeds e h x) \<Longrightarrow> attempted e h xs = xs"
  by (induction xs arbitrary: h) auto

lemma all_ok_first_error: "(\<And>h x. succeeds e h x) \<Longrightarrow> first_error e h xs = None"
  by (induction xs arbitrary: h) auto

lemmas eval_defs =
  main_def main_exec_def Exec_def preparePlugin_def cfg_scenario_def Let_def
  setupProject_steps helmInit_steps createPackage_steps pushPackage_steps perform_all_eq
  provision_steps_def cmd_ops_def activate_cmd_def project_cmd_def cluster_cmd_def
  record_path_def init_cmd_def package_cmd_def copy_cmd_def
  deployPackage_def append_slice_def slice_elems_def debug_cmd_def perform_def
  world0_def nil_slice_def createPkg_def pushPkg_def deployPkg_def emit_events
  Command_def gcloudBin_def gsutilBin_def helmBin_def

lemmas eval_more =
  eval_defs env_ok_def env_activation_fails_once_def warn_retry_def fatal_exec_def

lemma run_activation_fails_once:
  "main env_activation_fails_once (cfg_scenario [''create'']) world0 =
     (ExitOK,
      world0\<lparr>events :=
        [TempFile [] ''auth-key.json'', WriteFile ''/tmp/auth-key.json123'' ''key'',
         CloseFile ''/tmp/auth-key.json123'', Run (activate_cmd ''/tmp/auth-key.json123''),
         warn_retry,
         TempFile [] ''auth-key.json'', WriteFile ''/tmp/auth-key.json123'' ''key'',
         CloseFile ''/tmp/auth-key.json123'', Run (activate_cmd ''/tmp/auth-key.json123''),
         Run (Command gcloudBin [''config'', ''set'', ''project'', ''proj'']),
         Run (Command gcloudBin
                [''container'', ''clusters'', ''get-credentials'', ''c'', ''--zone'', ''z'']),
         record_path ''/tmp/auth-key.json123'',
         Run init_cmd,
         Run (Command helmBin [''package'', ''--version'', ''1.2.3'', ''/charts/myapp''])]\<rparr>)"
  by (simp add: eval_more)

lemmas eval_all =
  eval_more env_tenth_fails_def env_eleventh_fails_def env_copy_fails_def

lemma run_unknown_ok:
  "main env_ok (cfg_scenario [''push'', ''bogus'', ''create'']) world0 =
     (ExitFatal ''failed to execute plugin'' UnknownAction,
      world0\<lparr>events :=
        [TempFile [] ''auth-key.json'', WriteFile ''/tmp/auth-key.json123'' ''key'',
         CloseFile ''/tmp/auth-key.json123'', Run (activate_cmd ''/tmp/auth-key.json123''),
         Run (Command gcloudBin [''config'', ''set'', ''project'', ''proj'']),
         Run (Command gcloudBin
                [''container'', ''clusters'', ''get-credentials'', ''c'', ''--zone'', ''z'']),
         record_path ''/tmp/auth-key.json123'',
         Run init_cmd,
         Run (Command gsutilBin [''cp'', ''myapp-1.2.3.tgz'', ''gs://my-bucket'']),
         warn_retry,
         TempFile [] ''auth-key.json'', WriteFile ''/tmp/auth-key.json123'' ''key'',
         CloseFile ''/tmp/auth-key.json123'', Run (activate_cmd ''/tmp/auth-key.json123''),
         Run (Command gcloudBin [''config'', ''set'', ''project'', ''proj'']),
         Run (Command gcloudBin
                [''container'', ''clusters'', ''get-credentials'', ''c'', ''--zone'', ''z'']),
         record_path ''/tmp/auth-key.json123'',
         Run init_cmd,
         Run (Command gsutilBin [''cp'', ''myapp-1.2.3.tgz'', ''gs://my-bucket'']),
         fatal_exec]\<rparr>)"
  by (simp add: eval_all)

lemma run_unknown_eleventh:
  "main env_eleventh_fails (cfg_scenario [''push'', ''bogus'', ''create'']) world0 =
     (ExitFatal ''failed to execute plugin'' (OpFailed (TempFile [] ''auth-key.json'')),
      world0\<lparr>events :=
        [TempFile [] ''auth-key.json'', WriteFile ''/tmp/auth-key.json123'' ''key'',
         CloseFile ''/tmp/auth-key.json123'', Run (activate_cmd ''/tmp/auth-key.json123''),
         Run (Command gcloudBin [''config'', ''set'', ''project'', ''proj'']),
         Run (Command gcloudBin
                [''container'', ''clusters'', ''get-credentials'', ''c'', ''--zone'', ''z'']),
         record_path ''/tmp/auth-key.json123'',
         Run init_cmd,
         Run (Command gsutilBin [''cp'', ''myapp-1.2.3.tgz'', ''gs://my-bucket'']),
         warn_retry,
         TempFile [] ''auth-key.json'',
         fatal_exec]\<rparr>)"
  by (simp add: eval_all)




section \<open>The claims about the two phases\<close>

text \<open>
  C1 asks for a wait of 10 time units before the retry that follows a failed credential
  provisioning. The code does not wait there. With the first activation of the credential
  failing, \<open>main\<close> logs \<open>Plugin execution failed. Waiting 10 seconds and retrying!\<close>
  and starts the second attempt at once; the run succeeds and contains no sleep.
\<close>

theorem provisioning_retry_without_delay:
  "fst (setupProject env_activation_fails_once (snd (preparePlugin (cfg_scenario [''create''])))
          world0) =
     Some (OpFailed (Run (activate_cmd ''/tmp/auth-key.json123''))) \<and>
   fst (main env_activation_fails_once (cfg_scenario [''create'']) world0) = ExitOK \<and>
   events (snd (main env_activation_fails_once (cfg_scenario [''create'']) world0)) =
     [TempFile [] ''auth-key.json'', WriteFile ''/tmp/auth-key.json123'' ''key'',
      CloseFile ''/tmp/auth-key.json123'', Run (activate_cmd ''/tmp/auth-key.json123''),
      Warn ''Plugin execution failed. Waiting 10 seconds and retrying!'',
      TempFile [] ''auth-key.json'', WriteFile ''/tmp/auth-key.json123'' ''key'',
      CloseFile ''/tmp/auth-key.json123'', Run (activate_cmd ''/tmp/auth-key.json123''),
      Run (Command gcloudBin [''config'', ''set'', ''project'', ''proj'']),
      Run (Command gcloudBin
             [''container'', ''clusters'', ''get-credentials'', ''c'', ''--zone'', ''z'']),
      record_path ''/tmp/auth-key.json123'',
      Run init_cmd,
      Run (Command helmBin [''package'', ''--version'', ''1.2.3'', ''/charts/myapp''])] \<and>
   Sleep 10 \<notin> set (events (snd (main env_activation_fails_once (cfg_scenario [''create'']) world0)))"
proof -
  have "fst (setupProject env_activation_fails_once
               (snd (preparePlugin (cfg_scenario [''create'']))) world0) =
          Some (OpFailed (Run (activate_cmd ''/tmp/auth-key.json123'')))"
    by (simp add: eval_more)
  then show ?thesis
    by (simp add: run_activation_fails_once warn_retry_def record_path_def)
qed

text \<open>
  C3, as stated, fails: the error of an unrecognized identifier is retried like any
  other. With actions \<open>create, bogus, deploy\<close> the whole attempt, packaging included,
  runs a second time before the process terminates.
\<close>

theorem unknown_action_retried_counterexample:
  "events (snd (main env_ok (cfg_scenario [''create'', ''bogus'', ''deploy'']) world0)) =
     [TempFile [] ''auth-key.json'',
      WriteFile ''/tmp/auth-key.json123'' ''key'',
      CloseFile ''/tmp/auth-key.json123'',
      Run (activate_cmd ''/tmp/auth-key.json123''),
      Run (Command gcloudBin [''config'', ''set'', ''project'', ''proj'']),
      Run (Command gcloudBin [''container'', ''clusters'', ''get-credentials'', ''c'', ''--zone'', ''z'']),
      record_path ''/tmp/auth-key.json123'',
      Run init_cmd,
      Run (Command helmBin [''package'', ''--version'', ''1.2.3'', ''/charts/myapp'']),
      Warn ''Plugin execution failed. Waiting 10 seconds and retrying!'',
      TempFile [] ''auth-key.json'',
      WriteFile ''/tmp/auth-key.json123'' ''key'',
      CloseFile ''/tmp/auth-key.json123'',
      Run (activate_cmd ''/tmp/auth-key.json123''),
      Run (Command gcloudBin [''config'', ''set'', ''project'', ''proj'']),
      Run (Command gcloudBin [''container'', ''clusters'', ''get-credentials'', ''c'', ''--zone'', ''z'']),
      record_path ''/tmp/auth-key.json123'',
      Run init_cmd,
      Run (Command helmBin [''package'', ''--version'', ''1.2.3'', ''/charts/myapp'']),
      Fatal ''failed to execute plugin'']"
  by (simp add: eval_defs env_ok_def)

text \<open>
  C3, amended. When \<open>actions\<close> is \<open>pre\<close>, an unrecognized identifier, \<open>post\<close>, every
  execute attempt is: provisioning, initialization, the actions \<open>pre\<close> in order, and, when
  all of that succeeded, the error \<open>unknown action\<close> at once. No action of \<open>post\<close> is
  ever executed. The failed attempt is retried like any other: \<open>main\<close> logs the warning,
  makes a second attempt of the same shape, and terminates the process with the error
  that second attempt ended with.
\<close>

theorem unknown_action_fatal:
  assumes "\<not> recognized bad" and "Actions p = pre @ bad # post"
  shows "(let q = snd (preparePlugin p);
              r1 = attempt_to_unknown e q pre w;
              r2 = attempt_to_unknown e q pre (emit e warn_retry (snd r1))
          in Exec e q w = (Some (fst r1), snd r1) \<and>
             Exec e q (emit e warn_retry (snd r1)) = (Some (fst r2), snd r2) \<and>
             main e p w =
               (ExitFatal ''failed to execute plugin'' (fst r2), emit e fatal_exec (snd r2)))"
proof -
  define q where "q = snd (preparePlugin p)"
  have a: "Actions q = pre @ bad # post" using assms(2) by (simp add: q_def pp_Actions)
  note ex = Exec_to_unknown [OF assms(1) a]
  show ?thesis
    unfolding Let_def q_def [symmetric] main_eq [of e p w] main_exec_retry
    by (simp add: ex emit_events)
qed

theorem unknown_action_fatal_witness:
  "\<not> recognized ''bogus'' \<and>
   Actions (cfg_scenario [''push'', ''bogus'', ''create'']) = [''push''] @ ''bogus'' # [''create''] \<and>
   fst (attempt_to_unknown env_ok
          (snd (preparePlugin (cfg_scenario [''push'', ''bogus'', ''create''])))
          [''push'']
          (emit env_ok warn_retry
             (snd (attempt_to_unknown env_ok
                     (snd (preparePlugin (cfg_scenario [''push'', ''bogus'', ''create''])))
                     [''push''] world0)))) =
     UnknownAction \<and>
   fst (main env_ok (cfg_scenario [''push'', ''bogus'', ''create'']) world0) =
     ExitFatal ''failed to execute plugin'' UnknownAction \<and>
   events (snd (main env_ok (cfg_scenario [''push'', ''bogus'', ''create'']) world0)) =
     [TempFile [] ''auth-key.json'', WriteFile ''/tmp/auth-key.json123'' ''key'',
      CloseFile ''/tmp/auth-key.json123'', Run (activate_cmd ''/tmp/auth-key.json123''),
      Run (Command gcloudBin [''config'', ''set'', ''project'', ''proj'']),
      Run (Command gcloudBin
             [''container'', ''clusters'', ''get-credentials'', ''c'', ''--zone'', ''z'']),
      record_path ''/tmp/auth-key.json123'',
      Run init_cmd,
      Run (Command gsutilBin [''cp'', ''myapp-1.2.3.tgz'', ''gs://my-bucket'']),
      warn_retry,
      TempFile [] ''auth-key.json'', WriteFile ''/tmp/auth-key.json123'' ''key'',
      CloseFile ''/tmp/auth-key.json123'', Run (activate_cmd ''/tmp/auth-key.json123''),
      Run (Command gcloudBin [''config'', ''set'', ''project'', ''proj'']),
      Run (Command gcloudBin
             [''container'', ''clusters'', ''get-credentials'', ''c'', ''--zone'', ''z'']),
      record_path ''/tmp/auth-key.json123'',
      Run init_cmd,
      Run (Command gsutilBin [''cp'', ''myapp-1.2.3.tgz'', ''gs://my-bucket'']),
      fatal_exec] \<and>
   fst (main env_eleventh_fails (cfg_scenario [''push'', ''bogus'', ''create'']) world0) =
     ExitFatal ''failed to execute plugin'' (OpFailed (TempFile [] ''auth-key.json''))"
proof -
  let ?cfg = "cfg_scenario [''push'', ''bogus'', ''create'']"
  let ?q = "snd (preparePlugin ?cfg)"
  let ?r1 = "attempt_to_unknown env_ok ?q [''push''] world0"
  let ?r2 = "attempt_to_unknown env_ok ?q [''push''] (emit env_ok warn_retry (snd ?r1))"
  have r: "\<not> recognized ''bogus''" by (simp add: recognized_def)
  have a: "Actions ?cfg = [''push''] @ ''bogus'' # [''create'']"
    by (simp add: cfg_scenario_def)
  have "main env_ok ?cfg world0 =
          (ExitFatal ''failed to execute plugin'' (fst ?r2), emit env_ok fatal_exec (snd ?r2))"
    using unknown_action_fatal [OF r a, of env_ok world0] unfolding Let_def by (elim conjE)
  then have u: "fst ?r2 = UnknownAction"
    unfolding run_unknown_ok by simp
  show ?thesis
    using r a u by (simp add: run_unknown_ok run_unknown_eleventh)
qed




text \<open>
  C8, as stated, fails: \<open>publish\<close> is not an identifier the code recognizes (the
  publish stage is named \<open>push\<close>), so the run ends with \<open>unknown action\<close> and neither
  copies the artifact nor deploys.
\<close>

theorem scenario_publish_counterexample:
  "fst (main env_ok (cfg_scenario [''create'', ''publish'', ''deploy'']) world0) =
     ExitFatal ''failed to execute plugin'' UnknownAction \<and>
   Run \<lparr>Args = [''/opt/google-cloud-sdk/bin/gsutil'', ''cp'', ''myapp-1.2.3.tgz'',
                 ''gs://my-bucket''], Stdio = False\<rparr>
     \<notin> set (events (snd (main env_ok (cfg_scenario [''create'', ''publish'', ''deploy'']) world0))) \<and>
   Run \<lparr>Args = [''/opt/google-cloud-sdk/bin/helm'', ''upgrade'', ''myapp'',
                 ''myapp-1.2.3.tgz'', ''--set'', ''namespace=default'', ''--install'',
                 ''--namespace'', ''default''], Stdio = False\<rparr>
     \<notin> set (events (snd (main env_ok (cfg_scenario [''create'', ''publish'', ''deploy'']) world0)))"
  by (simp add: eval_defs env_ok_def)


text \<open>
  C8, amended. For chartPath \<open>/charts/myapp\<close>, chartVersion \<open>1.2.3\<close>, bucket
  \<open>my-bucket\<close> and actions \<open>create, push, deploy\<close>, when every operation succeeds:
  after provisioning and initialization the packaging tool is called with version
  \<open>1.2.3\<close> on \<open>/charts/myapp\<close>, then \<open>myapp-1.2.3.tgz\<close> is copied to
  \<open>gs://my-bucket\<close>, then the deployment tool is called for \<open>myapp\<close> with the file
  \<open>myapp-1.2.3.tgz\<close> and the namespace \<open>default\<close>, and the run succeeds.
\<close>

theorem scenario_push:
  assumes "\<And>h x. succeeds e h x"
  shows "fst (main e (cfg_scenario [''create'', ''push'', ''deploy'']) world0) = ExitOK \<and>
         events (snd (main e (cfg_scenario [''create'', ''push'', ''deploy'']) world0)) =
           [TempFile [] ''auth-key.json'',
            WriteFile (tmpname e []) ''key'',
            CloseFile (tmpname e []),
            Run \<lparr>Args = [''/opt/google-cloud-sdk/bin/gcloud'', ''auth'',
                          ''activate-service-account'', ''--key-file='' @ tmpname e []],
                  Stdio = False\<rparr>,
            Run \<lparr>Args = [''/opt/google-cloud-sdk/bin/gcloud'', ''config'', ''set'',
                          ''project'', ''proj''], Stdio = False\<rparr>,
            Run \<lparr>Args = [''/opt/google-cloud-sdk/bin/gcloud'', ''container'', ''clusters'',
                          ''get-credentials'', ''c'', ''--zone'', ''z''], Stdio = False\<rparr>,
            Setenv ''GOOGLE_APPLICATION_CREDENTIALS'' (tmpname e []),
            Run \<lparr>Args = [''/opt/google-cloud-sdk/bin/helm'', ''init'', ''--client-only''],
                  Stdio = False\<rparr>,
            Run \<lparr>Args = [''/opt/google-cloud-sdk/bin/helm'', ''package'', ''--version'',
                          ''1.2.3'', ''/charts/myapp''], Stdio = False\<rparr>,
            Run \<lparr>Args = [''/opt/google-cloud-sdk/bin/gsutil'', ''cp'', ''myapp-1.2.3.tgz'',
                          ''gs://my-bucket''], Stdio = False\<rparr>,
            Run \<lparr>Args = [''/opt/google-cloud-sdk/bin/helm'', ''upgrade'', ''myapp'',
                          ''myapp-1.2.3.tgz'', ''--set'', ''namespace=default'', ''--install'',
                          ''--namespace'', ''default''], Stdio = False\<rparr>]"
  by (simp add: eval_defs all_ok_attempted [OF assms] all_ok_first_error [OF assms] assms)

theorem scenario_push_witness:
  "(\<forall>h x. succeeds env_ok h x) \<and>
   fst (main env_ok (cfg_scenario [''create'', ''push'', ''deploy'']) world0) = ExitOK \<and>
   drop 8 (events (snd (main env_ok (cfg_scenario [''create'', ''push'', ''deploy'']) world0))) =
     [Run \<lparr>Args = [''/opt/google-cloud-sdk/bin/helm'', ''package'', ''--version'',
                    ''1.2.3'', ''/charts/myapp''], Stdio = False\<rparr>,
      Run \<lparr>Args = [''/opt/google-cloud-sdk/bin/gsutil'', ''cp'', ''myapp-1.2.3.tgz'',
                    ''gs://my-bucket''], Stdio = False\<rparr>,
      Run \<lparr>Args = [''/opt/google-cloud-sdk/bin/helm'', ''upgrade'', ''myapp'',
                    ''myapp-1.2.3.tgz'', ''--set'', ''namespace=default'', ''--install'',
                    ''--namespace'', ''default''], Stdio = False\<rparr>]"
proof -
  have ok: "\<And>h x. succeeds env_ok h x" by (simp add: env_ok_def)
  from scenario_push [of env_ok, OF ok] ok show ?thesis by simp
qed

text \<open>
  C10. A handler gets the configuration by value; the only thing it shares with the
  dispatcher is the array behind \<open>values\<close>. Whatever the stage, the dispatcher's header
  stays well formed and shows the same overrides afterwards, and every deployment of a
  run, however often \<open>deploy\<close> is listed and whether or not the attempt is retried,
  passes the original overrides followed by exactly one namespace entry.
\<close>

theorem handlers_leave_values:
  assumes "wf_slice w (Values p)"
  shows "(let vals = slice_elems w (Values p); q = snd (preparePlugin p) in
      wf_slice (snd (handler e p a w)) (Values p) \<and>
      slice_elems (snd (handler e p a w)) (Values p) = vals \<and>
      list_all (deploys_with q vals) (events_since w (snd (main e p w))))"
proof -
  define q where "q = snd (preparePlugin p)"
  define vals where "vals = slice_elems w (Values p)"
  have h: "run_inv p vals w (snd (handler e p a w))"
    unfolding vals_def by (rule run_inv_handler [OF run_inv_refl [OF assms]])
  have wf: "wf_slice w (Values q)" using assms by (simp add: q_def pp_Values)
  have vq: "slice_elems w (Values q) = vals" by (simp add: q_def pp_Values vals_def)
  have inv: "run_inv q vals w (snd (main_exec e q w))"
    using run_inv_main_exec [OF run_inv_refl [OF wf], of e] vq by simp
  have "list_all (deploys_with q vals) (events_since w (snd (main e p w)))"
    unfolding main_eq q_def [symmetric] list_all_iff
    using run_inv_since [OF inv] program_ops_deploys_with by blast
  with h show ?thesis
    unfolding Let_def q_def [symmetric] vals_def [symmetric] run_inv_def by blast
qed

theorem handlers_leave_values_witness:
  "wf_slice world_spare (Values cfg_spare) \<and>
   heap (snd (handler env_tenth_fails cfg_spare ''deploy'' world_spare)) 0 = [''a=1'', ''namespace=prod''] \<and>
   slice_elems (snd (handler env_tenth_fails cfg_spare ''deploy'' world_spare)) (Values cfg_spare) = [''a=1''] \<and>
   events (snd (main env_tenth_fails cfg_spare world_spare)) =
     [TempFile [] ''auth-key.json'', WriteFile ''/tmp/auth-key.json123'' ''key'',
      CloseFile ''/tmp/auth-key.json123'', Run (activate_cmd ''/tmp/auth-key.json123''),
      Run (Command gcloudBin [''config'', ''set'', ''project'', ''proj'']),
      Run (Command gcloudBin
             [''container'', ''clusters'', ''get-credentials'', ''c'', ''--zone'', ''z'']),
      record_path ''/tmp/auth-key.json123'',
      Run init_cmd,
      Run (upgrade_cmd cfg_spare [''a=1'']),
      Run (upgrade_cmd cfg_spare [''a=1'']),
      warn_retry,
      TempFile [] ''auth-key.json'', WriteFile ''/tmp/auth-key.json123'' ''key'',
      CloseFile ''/tmp/auth-key.json123'', Run (activate_cmd ''/tmp/auth-key.json123''),
      Run (Command gcloudBin [''config'', ''set'', ''project'', ''proj'']),
      Run (Command gcloudBin
             [''container'', ''clusters'', ''get-credentials'', ''c'', ''--zone'', ''z'']),
      record_path ''/tmp/auth-key.json123'',
      Run init_cmd,
      Run (upgrade_cmd cfg_spare [''a=1'']),
      Run (upgrade_cmd cfg_spare [''a=1''])] \<and>
   Args (upgrade_cmd cfg_spare [''a=1'']) =
     [''/opt/google-cloud-sdk/bin/helm'', ''upgrade'', ''myapp'', ''myapp-1.2.3.tgz'', ''--set'',
      ''a=1,namespace=prod'', ''--install'', ''--namespace'', ''prod'']"
  using handlers_leave_values [of world_spare cfg_spare env_tenth_fails "''deploy''"]
  by (simp add: eval_more env_tenth_fails_def handler_def world_spare_def cfg_spare_def
      wf_slice_def upgrade_cmd_def)

end
